theory Spec2Isabelle
  imports
    Complex_Main
    "HOL-Library.Char_ord"
    "HOL-Library.List_Lexorder"
    "HOL-Library.Sublist"
begin

section \<open>The career dashboard (app1.py): data model\<close>

text \<open>
  The script reads one CSV file into a pandas DataFrame and uses eleven of its columns.
  A cell of a categorical column is a string or missing; a cell of a numeric column is a
  64-bit float or missing. pandas stores a missing cell as NaN, and a float NaN behaves
  the same way (every comparison with it is false, \<open>dropna\<close> removes it), so both are
  the value \<open>None\<close> here. Finite floats are modelled as real numbers: comparisons are
  exact, the rounding of sums and quotients is not modelled, infinities are left out.
\<close>

type_synonym pyfloat = "real option"

record row =
  Field_of_Study :: "string option"
  University_GPA :: pyfloat
  Starting_Salary :: pyfloat
  Years_to_Promotion :: pyfloat
  Networking_Score :: pyfloat
  Job_Offers :: pyfloat
  Gender :: "string option"
  Career_Satisfaction :: pyfloat
  WorkLifeBalance_Score :: pyfloat
  Current_Job_Level :: "string option"
  Certifications :: pyfloat

text \<open>A DataFrame is its rows in file order; a Series is a list of cells.\<close>

type_synonym dataframe = "row list"

text \<open>A line of the file whose cells are all empty.\<close>

definition blank_row :: row where
  "blank_row = \<lparr>Field_of_Study = None, University_GPA = None, Starting_Salary = None,
     Years_to_Promotion = None, Networking_Score = None, Job_Offers = None, Gender = None,
     Career_Satisfaction = None, WorkLifeBalance_Score = None, Current_Job_Level = None,
     Certifications = None\<rparr>"

section \<open>The pandas operations the script calls\<close>

text \<open>\<open>float >= float\<close> and \<open>float <= float\<close>: false as soon as one side is NaN.\<close>

fun float_ge :: "pyfloat \<Rightarrow> pyfloat \<Rightarrow> bool" where
  "float_ge (Some x) (Some y) = (y \<le> x)"
| "float_ge _ _ = False"

fun float_le :: "pyfloat \<Rightarrow> pyfloat \<Rightarrow> bool" where
  "float_le (Some x) (Some y) = (x \<le> y)"
| "float_le _ _ = False"

text \<open>
  \<open>Series.isin(values)\<close>, for a list of strings: a missing cell is in no such list.
\<close>

definition isin :: "string option list \<Rightarrow> string list \<Rightarrow> bool list" where
  "isin s vals = map (\<lambda>c. case c of None \<Rightarrow> False | Some v \<Rightarrow> v \<in> set vals) s"

text \<open>The elementwise \<open>&\<close> of two boolean Series.\<close>

definition series_and :: "bool list \<Rightarrow> bool list \<Rightarrow> bool list" where
  "series_and a b = map2 (\<and>) a b"

text \<open>
  \<open>Series.between(left, right)\<close> with the default \<open>inclusive="both"\<close>: pandas computes
  \<open>(self >= left) & (self <= right)\<close>.
\<close>

definition between :: "pyfloat list \<Rightarrow> pyfloat \<Rightarrow> pyfloat \<Rightarrow> bool list" where
  "between s left right =
     series_and (map (\<lambda>x. float_ge x left) s) (map (\<lambda>x. float_le x right) s)"

text \<open>\<open>df[mask]\<close>: a new frame of the rows whose mask entry is true, in order.\<close>

definition getitem_mask :: "'a list \<Rightarrow> bool list \<Rightarrow> 'a list" where
  "getitem_mask df bools = map fst (filter snd (zip df bools))"







text \<open>
  The argsort behind \<open>sort_values\<close> (pandas \<open>nargsort\<close>), on items without NaN: for a
  descending sort pandas reverses the items, sorts ascending and reverses the outcome.
  The sort is taken to be stable, as numpy's is on the short arrays of a group-by result.
\<close>

definition nargsort :: "bool \<Rightarrow> ('a \<Rightarrow> 'v::linorder) \<Rightarrow> 'a list \<Rightarrow> 'a list" where
  "nargsort ascending f items =
     (if ascending then sort_key f items else rev (sort_key f (rev items)))"





section \<open>Applying the filters (lines 50 to 53)\<close>

text \<open>
  The expression assigned to \<open>filtered\<close>, as a function of the three variables it
  reads.
\<close>

definition apply_filters :: "dataframe \<Rightarrow> string list \<Rightarrow> pyfloat \<times> pyfloat \<Rightarrow> dataframe" where
  "apply_filters df selected_fields gpa_range =
     getitem_mask df
       (series_and (isin (map Field_of_Study df) selected_fields)
          (between (map University_GPA df) (fst gpa_range) (snd gpa_range)))"

section \<open>The aggregations inside the plotting functions\<close>











section \<open>The plotting functions\<close>

text \<open>
  A figure is described by the one drawing call made on its axes, with the data handed
  to matplotlib, and by its title and axis labels. What matplotlib does with the data
  is outside the script.
\<close>

text \<open>
  Modelled from the spec: \<open>No_Data\<close> is the "no data" placeholder of the spec's chart
  builder. It is here so that the placeholder can be spoken of; no function of app1.py
  builds one.
\<close>

datatype artist =
    Hist "pyfloat list"
  | Bar "string list" "pyfloat list"
  | Plot "real list" "pyfloat list"
  | Scatter "pyfloat list" "pyfloat list"
  | Violinplot "pyfloat list list" "string list"
  | Boxplot "pyfloat list list" "string list"
  | Pie "nat list" "string list"
  | Imshow "pyfloat list" "string list"
  | No_Data

record figure =
  drawn :: artist
  title :: string
  xlabel :: string
  ylabel :: string











section \<open>The script, top to bottom\<close>



text \<open>
  What the script writes to the page that depends on the data: the overview table
  (\<open>st.dataframe\<close>) and the ten figures (\<open>st.pyplot\<close>). Headings and captions are
  constant text and are left out.
\<close>

datatype 'd element = Dataframe 'd | Pyplot figure

text \<open>
  The module-level variables of the script after one run. No statement of the script
  assigns to \<open>df\<close> or into it, and no pandas call it makes works in place, so each
  statement is the binding of the variable it assigns.
\<close>

record 'd env =
  df :: dataframe
  field_options :: "string list"
  selected_fields :: "string list"
  gpa_min :: pyfloat
  gpa_max :: pyfloat
  gpa_range :: "pyfloat \<times> pyfloat"
  filtered :: dataframe
  page :: "'d element list"


section \<open>Facts about the pandas operations\<close>

subsection \<open>The filter as a predicate on rows\<close>

lemma getitem_mask_pointwise:
  "getitem_mask xs (series_and (map P xs) (map Q xs)) = filter (\<lambda>x. P x \<and> Q x) xs"
  by (induction xs) (simp_all add: getitem_mask_def series_and_def)

lemma between_pointwise:
  "between (map g xs) lo hi = map (\<lambda>x. float_ge (g x) lo \<and> float_le (g x) hi) xs"
  by (induction xs) (simp_all add: between_def series_and_def)

lemma isin_pointwise:
  "isin (map f xs) vals =
     map (\<lambda>x. case f x of None \<Rightarrow> False | Some v \<Rightarrow> v \<in> set vals) xs"
  by (simp add: isin_def)

lemma apply_filters_filter:
  "apply_filters tbl cats rng =
     filter (\<lambda>r. (case Field_of_Study r of None \<Rightarrow> False | Some v \<Rightarrow> v \<in> set cats)
               \<and> float_ge (University_GPA r) (fst rng) \<and> float_le (University_GPA r) (snd rng)) tbl"
  unfolding apply_filters_def isin_pointwise between_pointwise
  by (rule getitem_mask_pointwise)

subsection \<open>Missing cells, distinct values, minimum and maximum\<close>











subsection \<open>The variables after a run\<close>


subsection \<open>Sorting\<close>

text \<open>
  A stable sort of a list that is already ordered by \<open>R\<close> orders it by the sort key and,
  among equal keys, by \<open>R\<close>.
\<close>

lemma insort_key_lex:
  "sorted_wrt (\<lambda>a b. f a < f b \<or> (f a = f b \<and> R a b)) ys \<Longrightarrow> (\<And>y. y \<in> set ys \<Longrightarrow> R x y)
   \<Longrightarrow> sorted_wrt (\<lambda>a b. f a < f b \<or> (f a = f b \<and> R a b)) (insort_key f x ys)"
  by (induction ys) (auto simp: set_insort_key)

lemma sort_key_lex:
  "sorted_wrt R xs \<Longrightarrow> sorted_wrt (\<lambda>a b. f a < f b \<or> (f a = f b \<and> R a b)) (sort_key f xs)"
  by (induction xs) (auto intro: insort_key_lex)


lemma nargsort_ascending_lex:
  "sorted_wrt R xs \<Longrightarrow> sorted_wrt (\<lambda>a b. f a < f b \<or> (f a = f b \<and> R a b)) (nargsort True f xs)"
  by (simp add: nargsort_def sort_key_lex)









subsection \<open>Groups\<close>









section \<open>The claims\<close>

text \<open>
  C1. The filter keeps exactly the rows whose Field_of_Study is one of the selected
  categories and whose University_GPA lies in the closed interval; a row with a missing
  cell in either column is dropped, without an error. With the interval (3.0, 3.0) and
  the GPAs 2.9, 3.0, 3.0, 3.1 the two rows at 3.0 are kept.
\<close>

theorem filtered_exactly_matching_rows:
  "apply_filters tbl cats (Some lo, Some hi) =
     filter (\<lambda>r. case (Field_of_Study r, University_GPA r) of
                    (Some f, Some g) \<Rightarrow> f \<in> set cats \<and> lo \<le> g \<and> g \<le> hi
                  | _ \<Rightarrow> False) tbl
   \<and>  apply_filters
       [r\<lparr>Field_of_Study := Some ''CS'', University_GPA := Some 2.9\<rparr>,
        r\<lparr>Field_of_Study := Some ''CS'', University_GPA := Some 3.0\<rparr>,
        r\<lparr>Field_of_Study := Some ''Art'', University_GPA := Some 3.0\<rparr>,
        r\<lparr>Field_of_Study := Some ''Art'', University_GPA := Some 3.1\<rparr>]
       [''Art'', ''CS''] (Some 3.0, Some 3.0) =
       [r\<lparr>Field_of_Study := Some ''CS'', University_GPA := Some 3.0\<rparr>,
        r\<lparr>Field_of_Study := Some ''Art'', University_GPA := Some 3.0\<rparr>]"
proof
  show "apply_filters tbl cats (Some lo, Some hi) =
     filter (\<lambda>r. case (Field_of_Study r, University_GPA r) of
                    (Some f, Some g) \<Rightarrow> f \<in> set cats \<and> lo \<le> g \<and> g \<le> hi
                  | _ \<Rightarrow> False) tbl"
    unfolding apply_filters_filter
    by (rule filter_cong) (simp_all split: option.splits)
next
  show "apply_filters
       [r\<lparr>Field_of_Study := Some ''CS'', University_GPA := Some 2.9\<rparr>,
        r\<lparr>Field_of_Study := Some ''CS'', University_GPA := Some 3.0\<rparr>,
        r\<lparr>Field_of_Study := Some ''Art'', University_GPA := Some 3.0\<rparr>,
        r\<lparr>Field_of_Study := Some ''Art'', University_GPA := Some 3.1\<rparr>]
       [''Art'', ''CS''] (Some 3.0, Some 3.0) =
       [r\<lparr>Field_of_Study := Some ''CS'', University_GPA := Some 3.0\<rparr>,
        r\<lparr>Field_of_Study := Some ''Art'', University_GPA := Some 3.0\<rparr>]"
    by (simp add: apply_filters_filter)
qed









text \<open>
  C6. An empty selection of categories gives the empty table whatever the interval,
  and an interval whose lower end exceeds its upper end gives the empty table whatever
  the selection. The result is an ordinary table: \<open>apply_filters\<close> has no error value.
\<close>

theorem empty_selection_or_empty_interval_gives_empty_table:
  "apply_filters tbl [] rng = []
   \<and> (hi < lo \<longrightarrow> apply_filters tbl cats (Some lo, Some hi) = [])"
proof
  show "apply_filters tbl [] rng = []"
    by (simp add: apply_filters_filter split: option.splits)
next
  show "hi < lo \<longrightarrow> apply_filters tbl cats (Some lo, Some hi) = []"
  proof
    assume "hi < lo"
    then have "\<not> (float_ge c (Some lo) \<and> float_le c (Some hi))" for c
      by (cases c) auto
    then show "apply_filters tbl cats (Some lo, Some hi) = []"
      by (simp add: apply_filters_filter)
  qed
qed

theorem empty_interval_witness:
  "(3::real) < 4
   \<and> apply_filters [blank_row\<lparr>Field_of_Study := Some ''CS'', University_GPA := Some 3.5\<rparr>]
        [''CS''] (Some 4, Some 3) = []"
  using empty_selection_or_empty_interval_gives_empty_table
    [where hi = 3 and lo = 4 and cats = "[''CS'']"
       and tbl = "[blank_row\<lparr>Field_of_Study := Some ''CS'', University_GPA := Some 3.5\<rparr>]"]
  by simp

text \<open>
  C7. The filter is a function of the table, the set of selected categories and the
  interval: two selections with the same members, in whatever order and multiplicity,
  give the same output. The rows kept stand in the order they have in the table (the
  output is a subsequence of the input).
\<close>

theorem filter_keeps_row_order_and_reads_selection_as_set:
  "subseq (apply_filters tbl cats rng) tbl
   \<and> (set cats = set cats' \<longrightarrow> apply_filters tbl cats rng = apply_filters tbl cats' rng)"
proof
  show "subseq (apply_filters tbl cats rng) tbl"
    by (simp add: apply_filters_filter)
next
  show "set cats = set cats' \<longrightarrow> apply_filters tbl cats rng = apply_filters tbl cats' rng"
  proof
    assume same: "set cats = set cats'"
    show "apply_filters tbl cats rng = apply_filters tbl cats' rng"
      unfolding apply_filters_filter same by (rule refl)
  qed
qed

theorem selection_order_witness:
  "set [''CS'', ''Art''] = set [''Art'', ''CS'', ''Art'']
   \<and> apply_filters [blank_row\<lparr>Field_of_Study := Some ''CS'', University_GPA := Some 3\<rparr>]
        [''CS'', ''Art''] (Some 2, Some 4)
     = apply_filters [blank_row\<lparr>Field_of_Study := Some ''CS'', University_GPA := Some 3\<rparr>]
        [''Art'', ''CS'', ''Art''] (Some 2, Some 4)"
proof -
  have s: "set [''CS'', ''Art''] = set [''Art'', ''CS'', ''Art'']" by auto
  show ?thesis
    using s filter_keeps_row_order_and_reads_selection_as_set
      [where cats = "[''CS'', ''Art'']" and cats' = "[''Art'', ''CS'', ''Art'']"]
    by blast
qed




end
